theory Spec2Isabelle
  imports Main
begin

section \<open>Values, sessions and the outside world\<close>

text \<open>
  The handlers of \<^verbatim>\<open>src/app.py\<close> move JSON values between HTTP responses, the Flask
  session and the flashed messages. Python's \<^verbatim>\<open>None\<close> and JSON \<^verbatim>\<open>null\<close> are the same
  value \<open>JNull\<close>; a dict is an association list read with \<open>map_of\<close>. Numbers with a
  fractional part are not modelled.
\<close>

datatype jval =
    JNull
  | JBool bool
  | JInt int
  | JStr string
  | JArr "jval list"
  | JObj "(string \<times> jval) list"

text \<open>Python truthiness, as used by \<^verbatim>\<open>if x:\<close>, \<^verbatim>\<open>not x\<close> and \<^verbatim>\<open>x or y\<close>.\<close>

fun truthy :: "jval \<Rightarrow> bool" where
  "truthy JNull = False"
| "truthy (JBool b) = b"
| "truthy (JInt n) = (n \<noteq> 0)"
| "truthy (JStr s) = (s \<noteq> [])"
| "truthy (JArr xs) = (xs \<noteq> [])"
| "truthy (JObj kvs) = (kvs \<noteq> [])"

text \<open>The exceptions the handlers can meet. Every \<^verbatim>\<open>requests\<close> failure (transport
  error, \<^verbatim>\<open>raise_for_status\<close>, and since requests 2.27 a body that is not JSON) is a
  \<^verbatim>\<open>RequestException\<close>.\<close>

datatype req_error =
    ConnectionError string
  | HTTPError nat
  | JSONDecodeError

datatype exn =
    RequestException req_error
  | AttributeError
  | TypeError
  | UnicodeEncodeError

definition dict_get :: "(string \<times> jval) list \<Rightarrow> string \<Rightarrow> jval \<Rightarrow> jval" where
  "dict_get kvs k d = (case map_of kvs k of None \<Rightarrow> d | Some v \<Rightarrow> v)"

text \<open>\<^verbatim>\<open>x.get(k, d)\<close>: only a dict has the method.\<close>

fun py_get :: "jval \<Rightarrow> string \<Rightarrow> jval \<Rightarrow> exn + jval" where
  "py_get (JObj kvs) k d = Inr (dict_get kvs k d)"
| "py_get _ k d = Inl AttributeError"

fun str_contains :: "string \<Rightarrow> string \<Rightarrow> bool" where
  "str_contains [] p = (p = [])"
| "str_contains (c # s) p = (take (length p) (c # s) = p \<or> str_contains s p)"

text \<open>\<^verbatim>\<open>k in x\<close> for a string \<open>k\<close>: key of a dict, element of a list, substring of a
  string, \<^verbatim>\<open>TypeError\<close> otherwise.\<close>

fun py_in :: "string \<Rightarrow> jval \<Rightarrow> exn + bool" where
  "py_in k (JObj kvs) = Inr (k \<in> set (map fst kvs))"
| "py_in k (JArr xs) = Inr (JStr k \<in> set xs)"
| "py_in k (JStr s) = Inr (str_contains s k)"
| "py_in k _ = Inl TypeError"

type_synonym session = "string \<rightharpoonup> jval"

text \<open>\<^verbatim>\<open>session.get(k)\<close>\<close>

definition session_get :: "session \<Rightarrow> string \<Rightarrow> jval" where
  "session_get s k = (case s k of None \<Rightarrow> JNull | Some v \<Rightarrow> v)"

text \<open>
  Outgoing calls. A request records the URL and what the handler puts into it; the
  \<^verbatim>\<open>Authorization\<close> header \<^verbatim>\<open>f"Bearer {token}"\<close> is recorded by its token value.
\<close>

datatype request =
    PostForm string "(string \<times> jval) list"
  | GetBearer string jval
  | PostJson string jval

datatype http_result =
    NetworkError string
  | Response nat "jval option"

datatype event =
    EvSystem string
  | EvTokenBytes nat
  | EvHttp request

text \<open>
  The outside world answers each effect as a function of the effects this request has
  performed so far, so two identical calls may be answered differently.
  \<open>sha256\<close> is \<^verbatim>\<open>hashlib.sha256(...).digest()\<close>.
\<close>

record world =
  os_system :: "event list \<Rightarrow> string \<Rightarrow> int"
  token_bytes :: "event list \<Rightarrow> nat \<Rightarrow> string"
  http :: "event list \<Rightarrow> request \<Rightarrow> http_result"
  sha256 :: "string \<Rightarrow> string"

record config =
  KEYCLOAK_URL :: string
  KEYCLOAK_REALM :: string
  KEYCLOAK_CLIENT_ID :: string
  KEYCLOAK_CLIENT_SECRET :: string
  APP_ORIGIN :: string
  CLOUD_CLIENT_ID :: string
  CLOUD_CLIENT_SECRET :: string

text \<open>
  The flashed messages are Russian text in the source; each is a constructor here, with
  the value interpolated into it as argument:
  \<open>Msg_keycloak_error\<close> line 152, \<open>Msg_bad_state\<close> line 158, \<open>Msg_no_code\<close> line 162,
  \<open>Msg_no_verifier\<close> line 168, \<open>Msg_token_exchange\<close> line 197, \<open>Msg_no_access_token\<close>
  line 203, \<open>Msg_keycloak_ok\<close> line 236, \<open>Msg_api_error\<close> line 241, \<open>Msg_logged_out\<close>
  line 80.
\<close>

datatype flash_msg =
    Msg_logged_out
  | Msg_keycloak_error string
  | Msg_bad_state
  | Msg_no_code
  | Msg_no_verifier
  | Msg_token_exchange jval
  | Msg_no_access_token
  | Msg_keycloak_ok
  | Msg_api_error req_error

text \<open>What a handler gives back: \<^verbatim>\<open>redirect(url_for("web"))\<close>, a \<^verbatim>\<open>jsonify\<close> body with
  its status, or an exception that leaves the handler.\<close>

datatype response =
    Redirect_web
  | Jsonify jval nat
  | Raised exn

text \<open>
  A handler run: the response, the session afterwards, the messages flashed (Flask keeps
  them under a key of its own, apart from the keys the handlers use) and the effects
  performed, in order.
\<close>

record result =
  resp :: response
  sess :: session
  flashed :: "(flash_msg \<times> string) list"
  trace :: "event list"

record callback_args =
  arg_code :: "string option"
  arg_state :: "string option"
  arg_error :: "string option"
  arg_error_description :: "string option"

section \<open>Logout\<close>

definition logout :: "session \<Rightarrow> result" where
  "logout s =
     \<lparr>resp = Redirect_web, sess = Map.empty, flashed = [(Msg_logged_out, ''info'')], trace = []\<rparr>"

section \<open>The resource counter\<close>

text \<open>\<^verbatim>\<open>response.raise_for_status()\<close>\<close>

definition raise_for_status :: "nat \<Rightarrow> bool" where
  "raise_for_status st = (400 \<le> st \<and> st < 600)"

definition cloud_token_request :: "config \<Rightarrow> request" where
  "cloud_token_request cfg =
     PostJson ''https://iam.api.cloud.ru/api/v1/auth/token''
       (JObj [(''keyId'', JStr (CLOUD_CLIENT_ID cfg)), (''secret'', JStr (CLOUD_CLIENT_SECRET cfg))])"

definition get_access_token_from_cloud ::
    "config \<Rightarrow> world \<Rightarrow> event list \<Rightarrow> (exn + jval) \<times> event list" where
  "get_access_token_from_cloud cfg w h =
     (let req = cloud_token_request cfg; h1 = h @ [EvHttp req] in
      case http w h req of
        NetworkError m \<Rightarrow> (Inl (RequestException (ConnectionError m)), h1)
      | Response st body \<Rightarrow>
          if raise_for_status st then (Inl (RequestException (HTTPError st)), h1)
          else (case body of
                  None \<Rightarrow> (Inl (RequestException JSONDecodeError), h1)
                | Some token_data \<Rightarrow> (py_get token_data ''access_token'' JNull, h1)))"

definition vms_url :: "jval \<Rightarrow> string" where
  "vms_url cloud_project_id_for_token =
     ''https://compute.api.cloud.ru/api/v1/vms?project_id=49abf5c8-9f16-4ca3-b5d3-5eca9bfac631''"

definition get_all_vms_in_cloud ::
    "config \<Rightarrow> world \<Rightarrow> event list \<Rightarrow> jval \<Rightarrow> (exn + jval) \<times> event list" where
  "get_all_vms_in_cloud cfg w h cloud_project_id_for_token =
     (case get_access_token_from_cloud cfg w h of
        (Inl e, h1) \<Rightarrow> (Inl e, h1)
      | (Inr token, h1) \<Rightarrow>
          (let req = GetBearer (vms_url cloud_project_id_for_token) token;
               h2 = h1 @ [EvHttp req] in
           case http w h1 req of
             NetworkError m \<Rightarrow> (Inl (RequestException (ConnectionError m)), h2)
           | Response st body \<Rightarrow>
               if raise_for_status st then (Inl (RequestException (HTTPError st)), h2)
               else (case body of
                       None \<Rightarrow> (Inl (RequestException JSONDecodeError), h2)
                     | Some vms_data \<Rightarrow> (py_get vms_data ''total'' (JInt 0), h2))))"

section \<open>The callback handler\<close>

definition returned :: "session \<Rightarrow> (flash_msg \<times> string) list \<Rightarrow> event list \<Rightarrow> result" where
  "returned s fl h = \<lparr>resp = Redirect_web, sess = s, flashed = fl, trace = h\<rparr>"

definition raised :: "session \<Rightarrow> event list \<Rightarrow> exn \<Rightarrow> result" where
  "raised s h e = \<lparr>resp = Raised e, sess = s, flashed = [], trace = h\<rparr>"

definition token_request :: "config \<Rightarrow> string \<Rightarrow> jval \<Rightarrow> request" where
  "token_request cfg code code_verifier =
     PostForm (KEYCLOAK_URL cfg @ ''/auth/realms/'' @ KEYCLOAK_REALM cfg
                 @ ''/protocol/openid-connect/token'')
       ([(''client_id'', JStr (KEYCLOAK_CLIENT_ID cfg)),
         (''grant_type'', JStr ''authorization_code''),
         (''code'', JStr code),
         (''redirect_uri'', JStr (APP_ORIGIN cfg @ ''/oauth/keycloak/callback'')),
         (''code_verifier'', code_verifier)]
        @ (if KEYCLOAK_CLIENT_SECRET cfg \<noteq> []
           then [(''client_secret'', JStr (KEYCLOAK_CLIENT_SECRET cfg))] else []))"

definition userinfo_request :: "config \<Rightarrow> jval \<Rightarrow> request" where
  "userinfo_request cfg access_token =
     GetBearer (KEYCLOAK_URL cfg @ ''/auth/realms/'' @ KEYCLOAK_REALM cfg
                  @ ''/protocol/openid-connect/userinfo'') access_token"

text \<open>Lines 207--220: the inner \<^verbatim>\<open>try\<close>; every \<^verbatim>\<open>RequestException\<close> is passed over and
  \<^verbatim>\<open>user_info\<close> stays \<^verbatim>\<open>None\<close>, as it does for a status other than 200.\<close>

definition fetch_user_info :: "config \<Rightarrow> world \<Rightarrow> event list \<Rightarrow> jval \<Rightarrow> jval \<times> event list" where
  "fetch_user_info cfg w h access_token =
     (let req = userinfo_request cfg access_token in
      (case http w h req of
         NetworkError m \<Rightarrow> JNull
       | Response st body \<Rightarrow>
           if st = 200 then (case body of None \<Rightarrow> JNull | Some user_info \<Rightarrow> user_info)
           else JNull,
       h @ [EvHttp req]))"

text \<open>Lines 232--238.\<close>

definition clean_up :: "session \<Rightarrow> event list \<Rightarrow> result" where
  "clean_up s h =
     returned (s(''keycloak_state'' := None, ''keycloak_code_verifier'' := None))
       [(Msg_keycloak_ok, ''success'')] h"

text \<open>Lines 222--238. The session keeps what was written to it before an exception.\<close>

definition finalize :: "config \<Rightarrow> world \<Rightarrow> session \<Rightarrow> event list \<Rightarrow> jval \<Rightarrow> result" where
  "finalize cfg w s h user_info =
     (case py_get user_info ''cloud_project_id'' JNull of
        Inl e \<Rightarrow> raised s h e
      | Inr cloud_project_id_for_token \<Rightarrow>
          (case get_all_vms_in_cloud cfg w h cloud_project_id_for_token of
             (Inl e, h1) \<Rightarrow> raised s h1 e
           | (Inr _, h1) \<Rightarrow>
               (let s1 = s(''is_authed'' \<mapsto> JBool True, ''auth_provider'' \<mapsto> JStr ''keycloak'') in
                if truthy user_info then
                  (case user_info of
                     JObj kvs \<Rightarrow>
                       (let s2 = s1(''user_email'' \<mapsto> dict_get kvs ''email'' JNull,
                                    ''user_name'' \<mapsto>
                                      (if truthy (dict_get kvs ''preferred_username'' JNull)
                                       then dict_get kvs ''preferred_username'' JNull
                                       else dict_get kvs ''name'' JNull),
                                    ''user_cloud_project_id'' \<mapsto>
                                      dict_get kvs ''cloud_project_id'' JNull) in
                        case get_all_vms_in_cloud cfg w h1 cloud_project_id_for_token of
                          (Inl e, h2) \<Rightarrow> raised s2 h2 e
                        | (Inr total_vms, h2) \<Rightarrow> clean_up (s2(''all_vms'' \<mapsto> total_vms)) h2)
                   | _ \<Rightarrow> raised s1 h1 AttributeError)
                else clean_up s1 h1)))"

text \<open>Lines 173--238: the body of the outer \<^verbatim>\<open>try\<close>.\<close>

definition exchange :: "config \<Rightarrow> world \<Rightarrow> session \<Rightarrow> string \<Rightarrow> jval \<Rightarrow> result" where
  "exchange cfg w s code code_verifier =
     (let req = token_request cfg code code_verifier; h1 = [EvHttp req] in
      case http w [] req of
        NetworkError m \<Rightarrow> raised s h1 (RequestException (ConnectionError m))
      | Response st body \<Rightarrow>
          (case body of
             None \<Rightarrow> raised s h1 (RequestException JSONDecodeError)
           | Some res \<Rightarrow>
               (case py_in ''error'' res of
                  Inl e \<Rightarrow> raised s h1 e
                | Inr True \<Rightarrow>
                    (case py_get res ''error'' (JStr ''Unknown error'') of
                       Inl e \<Rightarrow> raised s h1 e
                     | Inr d \<Rightarrow>
                         (case py_get res ''error_description'' d of
                            Inl e \<Rightarrow> raised s h1 e
                          | Inr m \<Rightarrow> returned s [(Msg_token_exchange m, ''error'')] h1))
                | Inr False \<Rightarrow>
                    (case py_get res ''access_token'' JNull of
                       Inl e \<Rightarrow> raised s h1 e
                     | Inr access_token \<Rightarrow>
                         if \<not> truthy access_token
                         then returned s [(Msg_no_access_token, ''error'')] h1
                         else (case fetch_user_info cfg w h1 access_token of
                                 (user_info, h2) \<Rightarrow> finalize cfg w s h2 user_info)))))"

text \<open>Lines 240--242: \<^verbatim>\<open>except requests.RequestException as e\<close>; any other exception
  leaves the handler.\<close>

definition except_RequestException :: "result \<Rightarrow> result" where
  "except_RequestException r =
     (case resp r of
        Raised (RequestException e) \<Rightarrow>
          r\<lparr>resp := Redirect_web, flashed := flashed r @ [(Msg_api_error e, ''error'')]\<rparr>
      | _ \<Rightarrow> r)"

definition keycloak_oauth_callback ::
    "config \<Rightarrow> world \<Rightarrow> session \<Rightarrow> callback_args \<Rightarrow> result" where
  "keycloak_oauth_callback cfg w s a =
     (let error_description = (case arg_error_description a of None \<Rightarrow> [] | Some d \<Rightarrow> d);
          stored_state = session_get s ''keycloak_state'';
          code_verifier = session_get s ''keycloak_code_verifier''
      in
      case arg_error a of
        Some (c # cs) \<Rightarrow>
          returned s [(Msg_keycloak_error
                         (if error_description \<noteq> [] then error_description else c # cs),
                       ''error'')] []
      | _ \<Rightarrow>
          (case arg_state a of
             Some (c # cs) \<Rightarrow>
               if JStr (c # cs) \<noteq> stored_state
               then returned s [(Msg_bad_state, ''error'')] []
               else (case arg_code a of
                       Some (d # ds) \<Rightarrow>
                         if \<not> truthy code_verifier
                         then returned s [(Msg_no_verifier, ''error'')] []
                         else except_RequestException (exchange cfg w s (d # ds) code_verifier)
                     | _ \<Rightarrow> returned s [(Msg_no_code, ''error'')] [])
           | _ \<Rightarrow> returned s [(Msg_bad_state, ''error'')] []))"

section \<open>PKCE values and the authorization URL\<close>

text \<open>\<^verbatim>\<open>base64.urlsafe_b64encode\<close>: three bytes become four symbols of the URL-safe
  alphabet, a shorter last group is padded with \<open>=\<close>.\<close>

definition b64_alphabet :: string where
  "b64_alphabet = ''ABCDEFGHIJKLMNOPQRSTUVWXYZabcdefghijklmnopqrstuvwxyz0123456789-_''"

definition b64_sym :: "nat \<Rightarrow> char" where
  "b64_sym n = b64_alphabet ! (n mod 64)"

fun b64_groups :: "nat list \<Rightarrow> string" where
  "b64_groups [] = []"
| "b64_groups [a] = [b64_sym (a div 4), b64_sym ((a mod 4) * 16), CHR ''='', CHR ''='']"
| "b64_groups [a, b] =
     [b64_sym (a div 4), b64_sym ((a mod 4) * 16 + b div 16), b64_sym ((b mod 16) * 4), CHR ''='']"
| "b64_groups (a # b # c # bs) =
     [b64_sym (a div 4), b64_sym ((a mod 4) * 16 + b div 16),
      b64_sym ((b mod 16) * 4 + c div 64), b64_sym (c mod 64)] @ b64_groups bs"

definition urlsafe_b64encode :: "string \<Rightarrow> string" where
  "urlsafe_b64encode bs = b64_groups (map of_char bs)"

text \<open>\<^verbatim>\<open>.rstrip(b'=')\<close>\<close>

definition rstrip_eq :: "string \<Rightarrow> string" where
  "rstrip_eq s = rev (dropWhile (\<lambda>c. c = CHR ''='') (rev s))"

text \<open>\<^verbatim>\<open>secrets.token_urlsafe(nbytes)\<close> is the unpadded URL-safe base64 text of
  \<^verbatim>\<open>nbytes\<close> random bytes.\<close>

definition token_urlsafe :: "world \<Rightarrow> event list \<Rightarrow> nat \<Rightarrow> string \<times> event list" where
  "token_urlsafe w h nbytes =
     (rstrip_eq (urlsafe_b64encode (token_bytes w h nbytes)), h @ [EvTokenBytes nbytes])"

definition generate_code_verifier :: "world \<Rightarrow> event list \<Rightarrow> string \<times> event list" where
  "generate_code_verifier w h = token_urlsafe w h 32"

definition is_ascii :: "char \<Rightarrow> bool" where
  "is_ascii c = (of_char c < (128::nat))"

text \<open>\<^verbatim>\<open>code_verifier.encode('ascii')\<close> raises on a character outside ASCII.\<close>

definition generate_code_challenge :: "world \<Rightarrow> string \<Rightarrow> exn + string" where
  "generate_code_challenge w code_verifier =
     (if list_all is_ascii code_verifier
      then Inr (rstrip_eq (urlsafe_b64encode (sha256 w code_verifier)))
      else Inl UnicodeEncodeError)"

text \<open>\<^verbatim>\<open>urllib.parse.urlencode\<close> of a dict of strings: keys and values pass through
  \<^verbatim>\<open>quote_plus\<close> and are joined by \<open>=\<close> and \<open>&\<close>.\<close>

definition unreserved :: string where
  "unreserved = ''ABCDEFGHIJKLMNOPQRSTUVWXYZabcdefghijklmnopqrstuvwxyz0123456789_.-~''"

definition hex_digit :: "nat \<Rightarrow> char" where
  "hex_digit n = ''0123456789ABCDEF'' ! (n mod 16)"

definition quote_char :: "char \<Rightarrow> string" where
  "quote_char c =
     (if c \<in> set unreserved then [c]
      else if c = CHR '' '' then ''+''
      else [CHR ''%'', hex_digit (of_char c div 16), hex_digit (of_char c mod 16)])"

definition quote_plus :: "string \<Rightarrow> string" where
  "quote_plus s = concat (map quote_char s)"

fun join_amp :: "string list \<Rightarrow> string" where
  "join_amp [] = []"
| "join_amp [x] = x"
| "join_amp (x # y # ys) = x @ ''&'' @ join_amp (y # ys)"

definition urlencode :: "(string \<times> string) list \<Rightarrow> string" where
  "urlencode params = join_amp (map (\<lambda>(k, v). quote_plus k @ ''='' @ quote_plus v) params)"

section \<open>Flow initiation\<close>

definition ping_command :: string where
  "ping_command = ''ping -c 1 -w2 10.10.11.16 > /dev/null 2>&1''"

definition json_error :: "session \<Rightarrow> event list \<Rightarrow> string \<Rightarrow> result" where
  "json_error s h msg =
     \<lparr>resp = Jsonify (JObj [(''success'', JBool False), (''error'', JStr msg)]) 500,
      sess = s, flashed = [], trace = h\<rparr>"

definition auth_params :: "config \<Rightarrow> string \<Rightarrow> string \<Rightarrow> (string \<times> string) list" where
  "auth_params cfg state code_challenge =
     [(''client_id'', KEYCLOAK_CLIENT_ID cfg),
      (''response_type'', ''code''),
      (''redirect_uri'', APP_ORIGIN cfg @ ''/oauth/keycloak/callback''),
      (''scope'', ''openid profile email''),
      (''state'', state),
      (''code_challenge'', code_challenge),
      (''code_challenge_method'', ''S256'')]"

definition keycloak_auth_url :: "config \<Rightarrow> string" where
  "keycloak_auth_url cfg =
     KEYCLOAK_URL cfg @ ''/auth/realms/'' @ KEYCLOAK_REALM cfg @ ''/protocol/openid-connect/auth''"

definition keycloak_oauth_init :: "config \<Rightarrow> world \<Rightarrow> session \<Rightarrow> result" where
  "keycloak_oauth_init cfg w s =
     (if KEYCLOAK_URL cfg = [] \<or> KEYCLOAK_REALM cfg = [] \<or> KEYCLOAK_CLIENT_ID cfg = []
      then json_error s [] ''Keycloak not configured''
      else if APP_ORIGIN cfg = []
      then json_error s [] ''APP_ORIGIN not configured''
      else if os_system w [] ping_command \<noteq> 0
      then json_error s [EvSystem ping_command] ''Network issues with Keycloak''
      else
        (case generate_code_verifier w [EvSystem ping_command] of
           (code_verifier, h2) \<Rightarrow>
             (case generate_code_challenge w code_verifier of
                Inl e \<Rightarrow> raised s h2 e
              | Inr code_challenge \<Rightarrow>
                  (case token_urlsafe w h2 32 of
                     (state, h3) \<Rightarrow>
                       \<lparr>resp = Jsonify
                          (JObj [(''success'', JBool True),
                                 (''auth_url'',
                                  JStr (keycloak_auth_url cfg @ ''?''
                                        @ urlencode (auth_params cfg state code_challenge))),
                                 (''state'', JStr state)]) 200,
                        sess = s(''keycloak_state'' \<mapsto> JStr state,
                                 ''keycloak_code_verifier'' \<mapsto> JStr code_verifier),
                        flashed = [], trace = h3\<rparr>))))"

section \<open>Situations the properties speak about\<close>

text \<open>The callback passes the checks of lines 151--169: no provider error, an incoming
  state equal to the stored one, a code, and a stored verifier.\<close>

definition passes_checks :: "session \<Rightarrow> callback_args \<Rightarrow> string \<Rightarrow> jval \<Rightarrow> bool" where
  "passes_checks s a code code_verifier \<longleftrightarrow>
     (arg_error a = None \<or> arg_error a = Some []) \<and>
     arg_state a \<noteq> None \<and> arg_state a \<noteq> Some [] \<and>
     s ''keycloak_state'' = map_option JStr (arg_state a) \<and>
     arg_code a = Some code \<and> code \<noteq> [] \<and>
     s ''keycloak_code_verifier'' = Some code_verifier \<and> truthy code_verifier"

text \<open>The token endpoint answers with a JSON object without \<open>error\<close> and with a usable
  \<open>access_token\<close>.\<close>

definition exchange_succeeds :: "config \<Rightarrow> world \<Rightarrow> string \<Rightarrow> jval \<Rightarrow> jval \<Rightarrow> bool" where
  "exchange_succeeds cfg w code code_verifier access_token \<longleftrightarrow>
     (case http w [] (token_request cfg code code_verifier) of
        Response st (Some (JObj res)) \<Rightarrow>
          ''error'' \<notin> set (map fst res) \<and> dict_get res ''access_token'' JNull = access_token
          \<and> truthy access_token
      | _ \<Rightarrow> False)"

text \<open>The initiation gets past lines 98--107: the configuration is complete and the
  ping succeeds.\<close>

definition init_ready :: "config \<Rightarrow> world \<Rightarrow> bool" where
  "init_ready cfg w \<longleftrightarrow>
     KEYCLOAK_URL cfg \<noteq> [] \<and> KEYCLOAK_REALM cfg \<noteq> [] \<and> KEYCLOAK_CLIENT_ID cfg \<noteq> [] \<and>
     APP_ORIGIN cfg \<noteq> [] \<and> os_system w [] ping_command = 0"

text \<open>The callback reached line 236.\<close>

definition finalized :: "result \<Rightarrow> bool" where
  "finalized r \<longleftrightarrow> resp r = Redirect_web \<and> flashed r = [(Msg_keycloak_ok, ''success'')]"






section \<open>Concrete runs\<close>

definition cfg_demo :: config where
  "cfg_demo =
     \<lparr>KEYCLOAK_URL = ''https://kc.example'', KEYCLOAK_REALM = ''demo'',
      KEYCLOAK_CLIENT_ID = ''web'', KEYCLOAK_CLIENT_SECRET = [],
      APP_ORIGIN = ''https://app.example'', CLOUD_CLIENT_ID = ''key'',
      CLOUD_CLIENT_SECRET = ''secret''\<rparr>"

definition cfg_no_realm :: config where
  "cfg_no_realm = cfg_demo\<lparr>KEYCLOAK_REALM := []\<rparr>"

definition sess_pending :: session where
  "sess_pending = [''keycloak_state'' \<mapsto> JStr ''S1'', ''keycloak_code_verifier'' \<mapsto> JStr ''V1'']"

definition args_ok :: callback_args where
  "args_ok = \<lparr>arg_code = Some ''c0de'', arg_state = Some ''S1'', arg_error = None,
              arg_error_description = None\<rparr>"

definition args_other_state :: callback_args where
  "args_other_state = \<lparr>arg_code = Some ''c0de'', arg_state = Some ''S2'', arg_error = None,
                       arg_error_description = None\<rparr>"

text \<open>The provider and the cloud of end-to-end scenario C: the exchange returns token
  \<open>T1\<close>, userinfo returns alice of project \<open>P1\<close>, the inventory holds 7 machines for
  project \<open>P1\<close> and 2 for any other project.\<close>

definition demo_http :: "request \<Rightarrow> http_result" where
  "demo_http req =
     (case req of
        PostForm u f \<Rightarrow> Response 200 (Some (JObj [(''access_token'', JStr ''T1'')]))
      | PostJson u b \<Rightarrow> Response 200 (Some (JObj [(''access_token'', JStr ''CT'')]))
      | GetBearer u t \<Rightarrow>
          if t = JStr ''T1''
          then Response 200 (Some (JObj [(''email'', JStr ''a@b.com''),
                                         (''preferred_username'', JStr ''alice''),
                                         (''cloud_project_id'', JStr ''P1'')]))
          else if u = ''https://compute.api.cloud.ru/api/v1/vms?project_id=P1''
          then Response 200 (Some (JObj [(''total'', JInt 7)]))
          else Response 200 (Some (JObj [(''total'', JInt 2)])))"

text \<open>In the concrete worlds the digest function is a stand-in; no statement below
  depends on its values.\<close>

definition world_with :: "int \<Rightarrow> (event list \<Rightarrow> request \<Rightarrow> http_result) \<Rightarrow> world" where
  "world_with ping f =
     \<lparr>os_system = (\<lambda>h c. ping), token_bytes = (\<lambda>h n. replicate n (CHR ''k'')),
      http = f, sha256 = (\<lambda>m. m)\<rparr>"

definition world_C :: world where
  "world_C = world_with 0 (\<lambda>h. demo_http)"

definition world_ping_down :: world where
  "world_ping_down = world_with 1 (\<lambda>h. demo_http)"

definition world_userinfo_down :: world where
  "world_userinfo_down =
     world_with 0 (\<lambda>h req. case req of
                      GetBearer u t \<Rightarrow> if t = JStr ''T1'' then Response 503 None else demo_http req
                    | _ \<Rightarrow> demo_http req)"

definition world_cloud_down :: world where
  "world_cloud_down =
     world_with 0 (\<lambda>h req. case req of
                      PostJson u b \<Rightarrow> NetworkError ''timed out''
                    | _ \<Rightarrow> demo_http req)"

definition world_denied :: world where
  "world_denied =
     world_with 0 (\<lambda>h req. case req of
                      PostForm u f \<Rightarrow> Response 400 (Some (JObj [(''error'', JStr ''invalid_grant'')]))
                    | _ \<Rightarrow> demo_http req)"

section \<open>The state check\<close>

lemma callback_no_error:
  assumes "arg_error a = None \<or> arg_error a = Some []"
  shows "keycloak_oauth_callback cfg w s a =
     (case arg_state a of
        Some (c # cs) \<Rightarrow>
          if JStr (c # cs) \<noteq> session_get s ''keycloak_state''
          then returned s [(Msg_bad_state, ''error'')] []
          else (case arg_code a of
                  Some (d # ds) \<Rightarrow>
                    if \<not> truthy (session_get s ''keycloak_code_verifier'')
                    then returned s [(Msg_no_verifier, ''error'')] []
                    else except_RequestException
                           (exchange cfg w s (d # ds) (session_get s ''keycloak_code_verifier''))
                | _ \<Rightarrow> returned s [(Msg_no_code, ''error'')] [])
      | _ \<Rightarrow> returned s [(Msg_bad_state, ''error'')] [])"
  using assms unfolding keycloak_oauth_callback_def Let_def by auto

lemma callback_bad_state:
  assumes "arg_error a = None \<or> arg_error a = Some []"
      and "case arg_state a of None \<Rightarrow> True | Some st \<Rightarrow> s ''keycloak_state'' \<noteq> Some (JStr st)"
  shows "keycloak_oauth_callback cfg w s a =
           \<lparr>resp = Redirect_web, sess = s, flashed = [(Msg_bad_state, ''error'')], trace = []\<rparr>"
proof (cases "arg_state a")
  case None
  then show ?thesis by (simp add: callback_no_error [OF assms(1)] returned_def)
next
  case (Some st)
  with assms(2) have ne: "s ''keycloak_state'' \<noteq> Some (JStr st)" by simp
  then have "JStr st \<noteq> session_get s ''keycloak_state''"
    by (cases "s ''keycloak_state''") (auto simp: session_get_def)
  with Some show ?thesis
    by (cases st) (simp_all add: callback_no_error [OF assms(1)] returned_def)
qed

lemma callback_provider_error:
  assumes "arg_error a = Some (c # cs)"
  shows "keycloak_oauth_callback cfg w s a =
           returned s [(Msg_keycloak_error
                          (case arg_error_description a of Some (d # ds) \<Rightarrow> d # ds | _ \<Rightarrow> c # cs),
                        ''error'')] []"
  using assms unfolding keycloak_oauth_callback_def Let_def
  by (simp split: option.split list.split)

lemma not_finalized_without_state:
  assumes "s ''keycloak_state'' = None"
  shows "\<not> finalized (keycloak_oauth_callback cfg w s a)"
proof (cases "arg_error a = None \<or> arg_error a = Some []")
  case True
  have "case arg_state a of None \<Rightarrow> True | Some st \<Rightarrow> s ''keycloak_state'' \<noteq> Some (JStr st)"
    using assms by (simp split: option.split)
  with True have "keycloak_oauth_callback cfg w s a =
      \<lparr>resp = Redirect_web, sess = s, flashed = [(Msg_bad_state, ''error'')], trace = []\<rparr>"
    by (rule callback_bad_state)
  then show ?thesis by (simp add: finalized_def)
next
  case False
  then obtain c cs where "arg_error a = Some (c # cs)"
    by (cases "arg_error a") (auto simp: neq_Nil_conv)
  from callback_provider_error [OF this] show ?thesis
    by (simp add: finalized_def returned_def)
qed

text \<open>
  C5. A callback without a provider error parameter whose state parameter is absent, or
  differs from the stored state, or meets a session without stored state, fails with
  the state-mismatch message; it performs no outgoing call and leaves the session as it
  was, so it does not mark it authenticated.
\<close>

theorem C5_csrf_mismatch:
  assumes "arg_error a = None \<or> arg_error a = Some []"
      and "case arg_state a of None \<Rightarrow> True | Some st \<Rightarrow> s ''keycloak_state'' \<noteq> Some (JStr st)"
  shows "keycloak_oauth_callback cfg w s a =
           \<lparr>resp = Redirect_web, sess = s, flashed = [(Msg_bad_state, ''error'')], trace = []\<rparr>"
  using assms by (rule callback_bad_state)

theorem C5_csrf_mismatch_witness:
  "(arg_error args_other_state = None \<or> arg_error args_other_state = Some []) \<and>
   (case arg_state args_other_state of None \<Rightarrow> True
    | Some st \<Rightarrow> sess_pending ''keycloak_state'' \<noteq> Some (JStr st)) \<and>
   keycloak_oauth_callback cfg_demo world_C sess_pending args_other_state =
     \<lparr>resp = Redirect_web, sess = sess_pending, flashed = [(Msg_bad_state, ''error'')], trace = []\<rparr>"
proof -
  have h1: "arg_error args_other_state = None \<or> arg_error args_other_state = Some []"
    by (simp add: args_other_state_def)
  have h2: "case arg_state args_other_state of None \<Rightarrow> True
            | Some st \<Rightarrow> sess_pending ''keycloak_state'' \<noteq> Some (JStr st)"
    by (simp add: args_other_state_def sess_pending_def)
  show ?thesis
    using h1 h2 C5_csrf_mismatch [where a = args_other_state and s = sess_pending
        and cfg = cfg_demo and w = world_C, OF h1 h2]
    by simp
qed

section \<open>Logout and the pending flow\<close>

text \<open>
  C9. Logout empties the whole session, the stored state and code verifier included.
  A callback that arrives afterwards without a provider error parameter fails the
  state check, and no callback at all completes the flow on the emptied session.
\<close>

theorem C9_logout_clears_pending:
  assumes "arg_error a = None \<or> arg_error a = Some []"
  shows "sess (logout s) = Map.empty \<and>
         keycloak_oauth_callback cfg w (sess (logout s)) a =
           \<lparr>resp = Redirect_web, sess = Map.empty, flashed = [(Msg_bad_state, ''error'')],
            trace = []\<rparr> \<and>
         \<not> finalized (keycloak_oauth_callback cfg w (sess (logout s)) a')"
proof -
  have e: "sess (logout s) = Map.empty" by (simp add: logout_def)
  have "case arg_state a of None \<Rightarrow> True
        | Some st \<Rightarrow> (Map.empty :: session) ''keycloak_state'' \<noteq> Some (JStr st)"
    by (simp split: option.split)
  with assms have "keycloak_oauth_callback cfg w Map.empty a =
      \<lparr>resp = Redirect_web, sess = Map.empty, flashed = [(Msg_bad_state, ''error'')],
       trace = []\<rparr>"
    by (rule callback_bad_state)
  with not_finalized_without_state [of Map.empty cfg w a'] e
  show ?thesis by simp
qed

theorem C9_logout_clears_pending_witness:
  "(arg_error args_ok = None \<or> arg_error args_ok = Some []) \<and>
   sess (logout sess_pending) = Map.empty \<and>
   keycloak_oauth_callback cfg_demo world_C (sess (logout sess_pending)) args_ok =
     \<lparr>resp = Redirect_web, sess = Map.empty, flashed = [(Msg_bad_state, ''error'')],
      trace = []\<rparr> \<and>
   \<not> finalized (keycloak_oauth_callback cfg_demo world_C (sess (logout sess_pending)) args_ok)"
proof -
  have h: "arg_error args_ok = None \<or> arg_error args_ok = Some []"
    by (simp add: args_ok_def)
  show ?thesis
    by (rule conjI [OF h C9_logout_clears_pending [where a = args_ok and a' = args_ok
          and s = sess_pending and cfg = cfg_demo and w = world_C, OF h]])
qed

section \<open>Failures of the initiation\<close>

text \<open>
  C8. When the provider URL, the realm, the client id or the application origin is
  empty, the initiation answers with a configuration error; when the configuration is
  complete and the ping fails, it answers with the network error. In both cases the
  session is unchanged and no random bytes have been drawn: the effects are none, or
  the ping alone.
\<close>

theorem C8_init_failures:
  "(KEYCLOAK_URL cfg = [] \<or> KEYCLOAK_REALM cfg = [] \<or> KEYCLOAK_CLIENT_ID cfg = []
      \<or> APP_ORIGIN cfg = [] \<longrightarrow>
      keycloak_oauth_init cfg w s =
        \<lparr>resp = Jsonify (JObj [(''success'', JBool False),
                                (''error'', JStr (if KEYCLOAK_URL cfg = [] \<or> KEYCLOAK_REALM cfg = []
                                                     \<or> KEYCLOAK_CLIENT_ID cfg = []
                                                  then ''Keycloak not configured''
                                                  else ''APP_ORIGIN not configured''))]) 500,
         sess = s, flashed = [], trace = []\<rparr>) \<and>
   (KEYCLOAK_URL cfg \<noteq> [] \<and> KEYCLOAK_REALM cfg \<noteq> [] \<and> KEYCLOAK_CLIENT_ID cfg \<noteq> []
      \<and> APP_ORIGIN cfg \<noteq> [] \<and> os_system w [] ping_command \<noteq> 0 \<longrightarrow>
      keycloak_oauth_init cfg w s =
        \<lparr>resp = Jsonify (JObj [(''success'', JBool False),
                                (''error'', JStr ''Network issues with Keycloak'')]) 500,
         sess = s, flashed = [], trace = [EvSystem ping_command]\<rparr>)"
  by (simp add: keycloak_oauth_init_def json_error_def)


theorem C8_init_failures_witness:
  "(KEYCLOAK_REALM cfg_no_realm = [] \<and>
    keycloak_oauth_init cfg_no_realm world_C sess_pending =
      \<lparr>resp = Jsonify (JObj [(''success'', JBool False),
                              (''error'', JStr ''Keycloak not configured'')]) 500,
       sess = sess_pending, flashed = [], trace = []\<rparr>) \<and>
   (os_system world_ping_down [] ping_command \<noteq> 0 \<and>
    keycloak_oauth_init cfg_demo world_ping_down sess_pending =
      \<lparr>resp = Jsonify (JObj [(''success'', JBool False),
                              (''error'', JStr ''Network issues with Keycloak'')]) 500,
       sess = sess_pending, flashed = [], trace = [EvSystem ping_command]\<rparr>)"
  using C8_init_failures [of cfg_no_realm world_C sess_pending]
        C8_init_failures [of cfg_demo world_ping_down sess_pending]
  by (simp add: cfg_no_realm_def cfg_demo_def world_ping_down_def world_with_def)

section \<open>Failure of the code exchange\<close>

lemma callback_checked:
  assumes "passes_checks s a code cv"
  shows "keycloak_oauth_callback cfg w s a = except_RequestException (exchange cfg w s code cv)"
proof -
  from assms have err: "arg_error a = None \<or> arg_error a = Some []"
    by (simp add: passes_checks_def)
  from assms obtain c cs where st: "arg_state a = Some (c # cs)"
    by (cases "arg_state a") (auto simp: passes_checks_def neq_Nil_conv)
  from assms st have stored: "session_get s ''keycloak_state'' = JStr (c # cs)"
    by (auto simp: passes_checks_def session_get_def)
  from assms obtain d ds where code: "arg_code a = Some (d # ds)" "code = d # ds"
    by (auto simp: passes_checks_def neq_Nil_conv)
  from assms have cv: "session_get s ''keycloak_code_verifier'' = cv" "truthy cv"
    by (auto simp: passes_checks_def session_get_def)
  show ?thesis
    by (simp add: callback_no_error [OF err] st stored code cv)
qed

lemma exchange_error_payload:
  assumes "http w [] (token_request cfg code cv) = Response st (Some (JObj res))"
      and "''error'' \<in> set (map fst res)"
  shows "exchange cfg w s code cv =
           returned s [(Msg_token_exchange
                          (dict_get res ''error_description''
                             (dict_get res ''error'' (JStr ''Unknown error''))), ''error'')]
             [EvHttp (token_request cfg code cv)]"
  using assms by (simp add: exchange_def Let_def)

lemma exchange_no_token:
  assumes "http w [] (token_request cfg code cv) = Response st (Some (JObj res))"
      and "''error'' \<notin> set (map fst res)"
      and "\<not> truthy (dict_get res ''access_token'' JNull)"
  shows "exchange cfg w s code cv =
           returned s [(Msg_no_access_token, ''error'')] [EvHttp (token_request cfg code cv)]"
  using assms by (simp add: exchange_def Let_def)

lemma exchange_success:
  assumes "exchange_succeeds cfg w code cv access_token"
  shows "exchange cfg w s code cv =
           finalize cfg w s
             [EvHttp (token_request cfg code cv), EvHttp (userinfo_request cfg access_token)]
             (fst (fetch_user_info cfg w [EvHttp (token_request cfg code cv)] access_token))"
proof -
  from assms obtain st res where
    r: "http w [] (token_request cfg code cv) = Response st (Some (JObj res))"
    and ne: "''error'' \<notin> set (map fst res)"
    and at: "dict_get res ''access_token'' JNull = access_token" "truthy access_token"
    by (auto simp: exchange_succeeds_def split: http_result.splits option.splits jval.splits)
  show ?thesis
    using r ne at by (simp add: exchange_def Let_def fetch_user_info_def split: prod.split)
qed

lemma except_returned [simp]:
  "except_RequestException (returned s fl h) = returned s fl h"
  by (simp add: except_RequestException_def returned_def)

text \<open>
  C6. When the callback has passed its checks and the token endpoint answers with a
  JSON object that carries \<open>error\<close>, or has no usable \<open>access_token\<close>, the callback
  ends with the matching error message; the session is exactly as before, and the
  token request is the only outgoing call: neither userinfo nor the cloud is asked.
\<close>

theorem C6_exchange_failure:
  assumes "passes_checks s a code cv"
      and "http w [] (token_request cfg code cv) = Response st (Some (JObj res))"
      and "''error'' \<in> set (map fst res) \<or> \<not> truthy (dict_get res ''access_token'' JNull)"
  shows "keycloak_oauth_callback cfg w s a =
           \<lparr>resp = Redirect_web, sess = s,
            flashed = [(if ''error'' \<in> set (map fst res)
                        then Msg_token_exchange
                               (dict_get res ''error_description''
                                  (dict_get res ''error'' (JStr ''Unknown error'')))
                        else Msg_no_access_token, ''error'')],
            trace = [EvHttp (token_request cfg code cv)]\<rparr>"
proof (cases "''error'' \<in> set (map fst res)")
  case True
  from exchange_error_payload [OF assms(2) True] True show ?thesis
    by (simp add: callback_checked [OF assms(1)] returned_def except_RequestException_def)
next
  case False
  with assms(3) have "\<not> truthy (dict_get res ''access_token'' JNull)" by simp
  from exchange_no_token [OF assms(2) False this] False show ?thesis
    by (simp add: callback_checked [OF assms(1)] returned_def except_RequestException_def)
qed

lemma passes_checks_demo: "passes_checks sess_pending args_ok ''c0de'' (JStr ''V1'')"
  by (simp add: passes_checks_def sess_pending_def args_ok_def)

lemma token_request_demo:
  "token_request cfg_demo ''c0de'' (JStr ''V1'') =
     PostForm ''https://kc.example/auth/realms/demo/protocol/openid-connect/token''
       [(''client_id'', JStr ''web''), (''grant_type'', JStr ''authorization_code''),
        (''code'', JStr ''c0de''), (''redirect_uri'', JStr ''https://app.example/oauth/keycloak/callback''),
        (''code_verifier'', JStr ''V1'')]"
  by (simp add: token_request_def cfg_demo_def)

theorem C6_exchange_failure_witness:
  "passes_checks sess_pending args_ok ''c0de'' (JStr ''V1'') \<and>
   http world_denied [] (token_request cfg_demo ''c0de'' (JStr ''V1'')) =
     Response 400 (Some (JObj [(''error'', JStr ''invalid_grant'')])) \<and>
   keycloak_oauth_callback cfg_demo world_denied sess_pending args_ok =
     \<lparr>resp = Redirect_web, sess = sess_pending,
      flashed = [(Msg_token_exchange (JStr ''invalid_grant''), ''error'')],
      trace = [EvHttp (token_request cfg_demo ''c0de'' (JStr ''V1''))]\<rparr>"
proof -
  have h2: "http world_denied [] (token_request cfg_demo ''c0de'' (JStr ''V1'')) =
     Response 400 (Some (JObj [(''error'', JStr ''invalid_grant'')]))"
    by (simp add: world_denied_def world_with_def token_request_demo)
  have h3: "''error'' \<in> set (map fst [(''error'', JStr ''invalid_grant'')]) \<or>
            \<not> truthy (dict_get [(''error'', JStr ''invalid_grant'')] ''access_token'' JNull)"
    by simp
  from C6_exchange_failure [OF passes_checks_demo h2 h3] passes_checks_demo h2
  show ?thesis by (simp add: dict_get_def)
qed

section \<open>Failures after the code exchange\<close>

lemma finalize_not_dict:
  assumes "\<And>kvs. user_info \<noteq> JObj kvs"
  shows "finalize cfg w s h user_info = raised s h AttributeError"
proof (cases user_info)
  case (JObj kvs)
  with assms show ?thesis by blast
qed (simp_all add: finalize_def)

lemma fetch_user_info_not_200:
  assumes "http w h (userinfo_request cfg access_token) = Response st body" and "st \<noteq> 200"
  shows "fst (fetch_user_info cfg w h access_token) = JNull"
  using assms by (simp add: fetch_user_info_def Let_def)

lemma fetch_user_info_network:
  assumes "http w h (userinfo_request cfg access_token) = NetworkError m"
  shows "fst (fetch_user_info cfg w h access_token) = JNull"
  using assms by (simp add: fetch_user_info_def Let_def)

lemma fetch_user_info_200:
  assumes "http w h (userinfo_request cfg access_token) = Response 200 (Some user_info)"
  shows "fst (fetch_user_info cfg w h access_token) = user_info"
  using assms by (simp add: fetch_user_info_def Let_def)

lemma identity_failure_raises:
  assumes "passes_checks s a code cv"
      and "exchange_succeeds cfg w code cv access_token"
      and "fst (fetch_user_info cfg w [EvHttp (token_request cfg code cv)] access_token) = JNull"
  shows "keycloak_oauth_callback cfg w s a =
           \<lparr>resp = Raised AttributeError, sess = s, flashed = [],
            trace = [EvHttp (token_request cfg code cv),
                     EvHttp (userinfo_request cfg access_token)]\<rparr>"
  by (simp add: callback_checked [OF assms(1)] exchange_success [OF assms(2)] assms(3)
        finalize_not_dict raised_def except_RequestException_def)

lemma exchange_succeeds_demo:
  assumes "http w [] (token_request cfg_demo ''c0de'' (JStr ''V1'')) =
             Response 200 (Some (JObj [(''access_token'', JStr ''T1'')]))"
  shows "exchange_succeeds cfg_demo w ''c0de'' (JStr ''V1'') (JStr ''T1'')"
  using assms by (simp add: exchange_succeeds_def dict_get_def)

lemma userinfo_request_demo:
  "userinfo_request cfg_demo t =
     GetBearer ''https://kc.example/auth/realms/demo/protocol/openid-connect/userinfo'' t"
  by (simp add: userinfo_request_def cfg_demo_def)

text \<open>
  C1, at a run the code does not survive. The state matches, the code is present, the
  verifier is stored, the exchange returns token \<open>T1\<close>, and userinfo answers with
  status 503. \<^verbatim>\<open>user_info\<close> stays \<^verbatim>\<open>None\<close>, line 222 calls \<^verbatim>\<open>.get\<close> on it, and the
  \<^verbatim>\<open>AttributeError\<close> leaves the handler: nothing is finalized and the session, which
  was not authenticated, is unchanged.
\<close>

theorem C1_identity_failure_is_fatal:
  "passes_checks sess_pending args_ok ''c0de'' (JStr ''V1'') \<and>
   exchange_succeeds cfg_demo world_userinfo_down ''c0de'' (JStr ''V1'') (JStr ''T1'') \<and>
   http world_userinfo_down [EvHttp (token_request cfg_demo ''c0de'' (JStr ''V1''))]
     (userinfo_request cfg_demo (JStr ''T1'')) = Response 503 None \<and>
   keycloak_oauth_callback cfg_demo world_userinfo_down sess_pending args_ok =
     \<lparr>resp = Raised AttributeError, sess = sess_pending, flashed = [],
      trace = [EvHttp (token_request cfg_demo ''c0de'' (JStr ''V1'')),
               EvHttp (userinfo_request cfg_demo (JStr ''T1''))]\<rparr> \<and>
   session_get sess_pending ''is_authed'' = JNull"
proof -
  have ex: "exchange_succeeds cfg_demo world_userinfo_down ''c0de'' (JStr ''V1'') (JStr ''T1'')"
    by (rule exchange_succeeds_demo)
       (simp add: world_userinfo_down_def world_with_def token_request_demo demo_http_def)
  have ui: "http world_userinfo_down [EvHttp (token_request cfg_demo ''c0de'' (JStr ''V1''))]
     (userinfo_request cfg_demo (JStr ''T1'')) = Response 503 None"
    by (simp add: world_userinfo_down_def world_with_def userinfo_request_demo)
  have "fst (fetch_user_info cfg_demo world_userinfo_down
               [EvHttp (token_request cfg_demo ''c0de'' (JStr ''V1''))] (JStr ''T1'')) = JNull"
    by (rule fetch_user_info_not_200 [OF ui]) simp
  from identity_failure_raises [OF passes_checks_demo ex this] passes_checks_demo ex ui
  show ?thesis by (simp add: session_get_def sess_pending_def)
qed

lemma finalize_first_lookup_fails:
  assumes "get_all_vms_in_cloud cfg w h (dict_get ui ''cloud_project_id'' JNull) = (Inl e, h')"
  shows "finalize cfg w s h (JObj ui) = raised s h' e"
  using assms by (simp add: finalize_def)

lemma get_all_vms_missing_total:
  assumes "get_access_token_from_cloud cfg w h = (Inr token, h1)"
      and "http w h1 (GetBearer (vms_url p) token) = Response st (Some (JObj d))"
      and "\<not> raise_for_status st" and "map_of d ''total'' = None"
  shows "get_all_vms_in_cloud cfg w h p =
           (Inr (JInt 0), h1 @ [EvHttp (GetBearer (vms_url p) token)])"
  using assms by (simp add: get_all_vms_in_cloud_def Let_def dict_get_def)

text \<open>
  C2, as the code has it. The callback passed its checks, the exchange succeeded and
  userinfo returned a JSON object. The resource count is first run at line 223, on
  the history of the token request and the userinfo request alone. When that first
  run raises a \<^verbatim>\<open>RequestException\<close>, the handler of line 240 catches it: the caller
  gets the redirect with the API-error message, but the session is exactly as before
  the callback, so it is not marked authenticated, \<open>all_vms\<close> is not written and the
  pending flow stays. The second run of the count, at line 231, is not spoken of here.
\<close>

theorem C2_resource_failure_aborts:
  assumes "passes_checks s a code cv"
      and "exchange_succeeds cfg w code cv access_token"
      and "http w [EvHttp (token_request cfg code cv)] (userinfo_request cfg access_token) =
             Response 200 (Some (JObj ui))"
      and "get_all_vms_in_cloud cfg w
             [EvHttp (token_request cfg code cv), EvHttp (userinfo_request cfg access_token)]
             (dict_get ui ''cloud_project_id'' JNull) = (Inl (RequestException e), h')"
  shows "keycloak_oauth_callback cfg w s a =
           \<lparr>resp = Redirect_web, sess = s, flashed = [(Msg_api_error e, ''error'')],
            trace = h'\<rparr>"
  by (simp add: callback_checked [OF assms(1)] exchange_success [OF assms(2)]
        fetch_user_info_200 [OF assms(3)] finalize_first_lookup_fails [OF assms(4)]
        raised_def except_RequestException_def)

lemma get_all_vms_cloud_down:
  "get_all_vms_in_cloud cfg_demo world_cloud_down h p =
     (Inl (RequestException (ConnectionError ''timed out'')),
      h @ [EvHttp (cloud_token_request cfg_demo)])"
  by (simp add: get_all_vms_in_cloud_def get_access_token_from_cloud_def Let_def
        world_cloud_down_def world_with_def cloud_token_request_def)

lemma exchange_succeeds_cloud_down:
  "exchange_succeeds cfg_demo world_cloud_down ''c0de'' (JStr ''V1'') (JStr ''T1'')"
  by (rule exchange_succeeds_demo)
     (simp add: world_cloud_down_def world_with_def token_request_demo demo_http_def)

lemma userinfo_cloud_down:
  "http world_cloud_down [EvHttp (token_request cfg_demo ''c0de'' (JStr ''V1''))]
     (userinfo_request cfg_demo (JStr ''T1'')) =
   Response 200 (Some (JObj [(''email'', JStr ''a@b.com''),
                             (''preferred_username'', JStr ''alice''),
                             (''cloud_project_id'', JStr ''P1'')]))"
  by (simp add: world_cloud_down_def world_with_def userinfo_request_demo demo_http_def)

theorem C2_resource_failure_aborts_witness:
  "passes_checks sess_pending args_ok ''c0de'' (JStr ''V1'') \<and>
   exchange_succeeds cfg_demo world_cloud_down ''c0de'' (JStr ''V1'') (JStr ''T1'') \<and>
   keycloak_oauth_callback cfg_demo world_cloud_down sess_pending args_ok =
     \<lparr>resp = Redirect_web, sess = sess_pending,
      flashed = [(Msg_api_error (ConnectionError ''timed out''), ''error'')],
      trace = [EvHttp (token_request cfg_demo ''c0de'' (JStr ''V1'')),
               EvHttp (userinfo_request cfg_demo (JStr ''T1'')),
               EvHttp (cloud_token_request cfg_demo)]\<rparr>"
  using C2_resource_failure_aborts [OF passes_checks_demo exchange_succeeds_cloud_down
          userinfo_cloud_down get_all_vms_cloud_down]
        passes_checks_demo exchange_succeeds_cloud_down
  by simp

text \<open>
  C2 as stated fails: with the cloud token endpoint unreachable, the callback of
  scenario C ends without \<open>is_authed\<close> set.
\<close>

theorem C2_resource_failure_counterexample:
  "passes_checks sess_pending args_ok ''c0de'' (JStr ''V1'') \<and>
   exchange_succeeds cfg_demo world_cloud_down ''c0de'' (JStr ''V1'') (JStr ''T1'') \<and>
   fst (fetch_user_info cfg_demo world_cloud_down
          [EvHttp (token_request cfg_demo ''c0de'' (JStr ''V1''))] (JStr ''T1'')) =
     JObj [(''email'', JStr ''a@b.com''), (''preferred_username'', JStr ''alice''),
           (''cloud_project_id'', JStr ''P1'')] \<and>
   fst (get_all_vms_in_cloud cfg_demo world_cloud_down
          [EvHttp (token_request cfg_demo ''c0de'' (JStr ''V1'')),
           EvHttp (userinfo_request cfg_demo (JStr ''T1''))] (JStr ''P1'')) =
     Inl (RequestException (ConnectionError ''timed out'')) \<and>
   session_get (sess (keycloak_oauth_callback cfg_demo world_cloud_down sess_pending args_ok))
     ''is_authed'' \<noteq> JBool True \<and>
   \<not> finalized (keycloak_oauth_callback cfg_demo world_cloud_down sess_pending args_ok)"
proof -
  have "keycloak_oauth_callback cfg_demo world_cloud_down sess_pending args_ok =
     \<lparr>resp = Redirect_web, sess = sess_pending,
      flashed = [(Msg_api_error (ConnectionError ''timed out''), ''error'')],
      trace = [EvHttp (token_request cfg_demo ''c0de'' (JStr ''V1'')),
               EvHttp (userinfo_request cfg_demo (JStr ''T1'')),
               EvHttp (cloud_token_request cfg_demo)]\<rparr>"
    by (simp add: callback_checked [OF passes_checks_demo]
          exchange_success [OF exchange_succeeds_cloud_down]
          fetch_user_info_200 [OF userinfo_cloud_down] finalize_def dict_get_def
          get_all_vms_cloud_down raised_def except_RequestException_def)
  then show ?thesis
    using passes_checks_demo exchange_succeeds_cloud_down
    by (simp add: fetch_user_info_200 [OF userinfo_cloud_down] get_all_vms_cloud_down
          session_get_def sess_pending_def finalized_def)
qed

text \<open>
  For the record, the second run of the count at line 231: when the first run returned
  and the second raises, lines 225--230 have already written the session.
\<close>

lemma finalize_repeated_lookup_fails:
  assumes "ui \<noteq> []"
      and "get_all_vms_in_cloud cfg w h (dict_get ui ''cloud_project_id'' JNull) = (Inr v, h1)"
      and "get_all_vms_in_cloud cfg w h1 (dict_get ui ''cloud_project_id'' JNull) = (Inl e, h2)"
  shows "finalize cfg w s h (JObj ui) =
           raised (s(''is_authed'' \<mapsto> JBool True, ''auth_provider'' \<mapsto> JStr ''keycloak'',
                     ''user_email'' \<mapsto> dict_get ui ''email'' JNull,
                     ''user_name'' \<mapsto>
                       (if truthy (dict_get ui ''preferred_username'' JNull)
                        then dict_get ui ''preferred_username'' JNull
                        else dict_get ui ''name'' JNull),
                     ''user_cloud_project_id'' \<mapsto> dict_get ui ''cloud_project_id'' JNull))
             h2 e"
  using assms by (simp add: finalize_def Let_def)

lemma callback_repeated_lookup_fails:
  assumes "passes_checks s a code cv"
      and "exchange_succeeds cfg w code cv access_token"
      and "http w [EvHttp (token_request cfg code cv)] (userinfo_request cfg access_token) =
             Response 200 (Some (JObj ui))"
      and "ui \<noteq> []"
      and "get_all_vms_in_cloud cfg w
             [EvHttp (token_request cfg code cv), EvHttp (userinfo_request cfg access_token)]
             (dict_get ui ''cloud_project_id'' JNull) = (Inr v, h1)"
      and "get_all_vms_in_cloud cfg w h1 (dict_get ui ''cloud_project_id'' JNull) =
             (Inl (RequestException e), h2)"
  shows "keycloak_oauth_callback cfg w s a =
           \<lparr>resp = Redirect_web,
            sess = s(''is_authed'' \<mapsto> JBool True, ''auth_provider'' \<mapsto> JStr ''keycloak'',
                     ''user_email'' \<mapsto> dict_get ui ''email'' JNull,
                     ''user_name'' \<mapsto>
                       (if truthy (dict_get ui ''preferred_username'' JNull)
                        then dict_get ui ''preferred_username'' JNull
                        else dict_get ui ''name'' JNull),
                     ''user_cloud_project_id'' \<mapsto> dict_get ui ''cloud_project_id'' JNull),
            flashed = [(Msg_api_error e, ''error'')], trace = h2\<rparr>"
  by (simp only: callback_checked [OF assms(1)] exchange_success [OF assms(2)]
        fetch_user_info_200 [OF assms(3)]
        finalize_repeated_lookup_fails [OF assms(4) assms(5) assms(6)])
     (simp add: raised_def except_RequestException_def)

section \<open>Consumption of the pending flow, and the resource count\<close>

lemma finalized_except:
  assumes "finalized (except_RequestException r)"
  shows "finalized r" and "except_RequestException r = r"
  using assms
  by (auto simp: finalized_def except_RequestException_def split: response.splits exn.splits)

lemma clean_up_sess:
  "sess (clean_up s h) ''keycloak_state'' = None"
  "sess (clean_up s h) ''keycloak_code_verifier'' = None"
  by (simp_all add: clean_up_def returned_def)

lemma not_finalized_raised [simp]: "\<not> finalized (raised s h e)"
  by (simp add: finalized_def raised_def)

lemma not_finalized_error [simp]: "\<not> finalized (returned s [(m, ''error'')] h)"
  by (simp add: finalized_def returned_def)

lemma finalize_finalized:
  "finalized (finalize cfg w s h user_info) \<longrightarrow>
     sess (finalize cfg w s h user_info) ''keycloak_state'' = None \<and>
     sess (finalize cfg w s h user_info) ''keycloak_code_verifier'' = None"
proof (cases user_info)
  case (JObj kvs)
  obtain r1 h1 where
    l1: "get_all_vms_in_cloud cfg w h (dict_get kvs ''cloud_project_id'' JNull) = (r1, h1)"
    by (cases "get_all_vms_in_cloud cfg w h (dict_get kvs ''cloud_project_id'' JNull)")
  obtain r2 h2 where
    l2: "get_all_vms_in_cloud cfg w h1 (dict_get kvs ''cloud_project_id'' JNull) = (r2, h2)"
    by (cases "get_all_vms_in_cloud cfg w h1 (dict_get kvs ''cloud_project_id'' JNull)")
  show ?thesis
    unfolding JObj
    by (cases r1; cases r2) (simp_all add: finalize_def l1 l2 Let_def clean_up_sess)
qed (simp_all add: finalize_def)

lemma exchange_cases:
  assumes "\<And>h e. P (raised s h e)"
      and "\<And>m h. P (returned s [(m, ''error'')] h)"
      and "\<And>h user_info. P (finalize cfg w s h user_info)"
  shows "P (exchange cfg w s code cv)"
  unfolding exchange_def Let_def
  by (simp add: assms split: http_result.split option.split sum.split bool.split prod.split)

lemma callback_cases:
  assumes "\<And>m. P (returned s [(m, ''error'')] [])"
      and "\<And>code cv. P (except_RequestException (exchange cfg w s code cv))"
  shows "P (keycloak_oauth_callback cfg w s a)"
  unfolding keycloak_oauth_callback_def Let_def
  by (simp add: assms split: option.split list.split)

lemma exchange_finalized:
  "finalized (exchange cfg w s code cv) \<longrightarrow>
     sess (exchange cfg w s code cv) ''keycloak_state'' = None \<and>
     sess (exchange cfg w s code cv) ''keycloak_code_verifier'' = None"
  by (rule exchange_cases) (simp_all add: finalize_finalized)

lemma except_finalized:
  assumes "finalized r \<longrightarrow>
             sess r ''keycloak_state'' = None \<and> sess r ''keycloak_code_verifier'' = None"
  shows "finalized (except_RequestException r) \<longrightarrow>
           sess (except_RequestException r) ''keycloak_state'' = None \<and>
           sess (except_RequestException r) ''keycloak_code_verifier'' = None"
proof
  assume f: "finalized (except_RequestException r)"
  from finalized_except [OF f] assms show
    "sess (except_RequestException r) ''keycloak_state'' = None \<and>
     sess (except_RequestException r) ''keycloak_code_verifier'' = None"
    by simp
qed

lemma callback_finalized:
  "finalized (keycloak_oauth_callback cfg w s a) \<longrightarrow>
     sess (keycloak_oauth_callback cfg w s a) ''keycloak_state'' = None \<and>
     sess (keycloak_oauth_callback cfg w s a) ''keycloak_code_verifier'' = None"
proof (rule callback_cases)
  fix m show "finalized (returned s [(m, ''error'')] []) \<longrightarrow>
     sess (returned s [(m, ''error'')] []) ''keycloak_state'' = None \<and>
     sess (returned s [(m, ''error'')] []) ''keycloak_code_verifier'' = None"
    by simp
next
  fix code cv
  show "finalized (except_RequestException (exchange cfg w s code cv)) \<longrightarrow>
     sess (except_RequestException (exchange cfg w s code cv)) ''keycloak_state'' = None \<and>
     sess (except_RequestException (exchange cfg w s code cv)) ''keycloak_code_verifier'' = None"
    by (rule except_finalized) (rule exchange_finalized)
qed

text \<open>
  C3, as the code has it. A callback that ends finalized has removed the stored state
  and the stored code verifier from the session. On the session it leaves, any later
  callback without a provider error parameter, the same code and state included,
  fails the state check and leaves that session unchanged, and no later callback at
  all finalizes again, whatever the provider answers.
\<close>

theorem C3_finalized_flow_is_consumed:
  assumes "finalized (keycloak_oauth_callback cfg w s a)"
      and "arg_error a' = None \<or> arg_error a' = Some []"
  shows "sess (keycloak_oauth_callback cfg w s a) ''keycloak_state'' = None \<and>
         sess (keycloak_oauth_callback cfg w s a) ''keycloak_code_verifier'' = None \<and>
         keycloak_oauth_callback cfg' w' (sess (keycloak_oauth_callback cfg w s a)) a' =
           \<lparr>resp = Redirect_web, sess = sess (keycloak_oauth_callback cfg w s a),
            flashed = [(Msg_bad_state, ''error'')], trace = []\<rparr> \<and>
         \<not> finalized
             (keycloak_oauth_callback cfg' w' (sess (keycloak_oauth_callback cfg w s a)) a'')"
proof -
  let ?s' = "sess (keycloak_oauth_callback cfg w s a)"
  from callback_finalized [of cfg w s a] assms(1)
  have st: "?s' ''keycloak_state'' = None" and cv: "?s' ''keycloak_code_verifier'' = None"
    by simp_all
  from st have "case arg_state a' of None \<Rightarrow> True
                | Some x \<Rightarrow> ?s' ''keycloak_state'' \<noteq> Some (JStr x)"
    by (simp split: option.split)
  with assms(2) have "keycloak_oauth_callback cfg' w' ?s' a' =
      \<lparr>resp = Redirect_web, sess = ?s', flashed = [(Msg_bad_state, ''error'')], trace = []\<rparr>"
    by (rule callback_bad_state)
  moreover have "\<not> finalized (keycloak_oauth_callback cfg' w' ?s' a'')"
    using st by (rule not_finalized_without_state)
  ultimately show ?thesis using st cv by simp
qed


lemma get_all_vms_world_C:
  "get_all_vms_in_cloud cfg_demo world_C h p =
     (Inr (JInt 2),
      h @ [EvHttp (cloud_token_request cfg_demo),
           EvHttp (GetBearer ''https://compute.api.cloud.ru/api/v1/vms?project_id=49abf5c8-9f16-4ca3-b5d3-5eca9bfac631''
                     (JStr ''CT''))])"
  by (simp add: get_all_vms_in_cloud_def get_access_token_from_cloud_def Let_def
        world_C_def world_with_def cloud_token_request_def demo_http_def vms_url_def
        raise_for_status_def dict_get_def)

lemma exchange_succeeds_world_C:
  "exchange_succeeds cfg_demo world_C ''c0de'' (JStr ''V1'') (JStr ''T1'')"
  by (rule exchange_succeeds_demo)
     (simp add: world_C_def world_with_def token_request_demo demo_http_def)

lemma userinfo_world_C:
  "http world_C [EvHttp (token_request cfg_demo ''c0de'' (JStr ''V1''))]
     (userinfo_request cfg_demo (JStr ''T1'')) =
   Response 200 (Some (JObj [(''email'', JStr ''a@b.com''),
                             (''preferred_username'', JStr ''alice''),
                             (''cloud_project_id'', JStr ''P1'')]))"
  by (simp add: world_C_def world_with_def userinfo_request_demo demo_http_def)

lemma scenario_C:
  "keycloak_oauth_callback cfg_demo world_C sess_pending args_ok =
     \<lparr>resp = Redirect_web,
      sess = sess_pending
        (''is_authed'' \<mapsto> JBool True, ''auth_provider'' \<mapsto> JStr ''keycloak'',
         ''user_email'' \<mapsto> JStr ''a@b.com'', ''user_name'' \<mapsto> JStr ''alice'',
         ''user_cloud_project_id'' \<mapsto> JStr ''P1'', ''all_vms'' \<mapsto> JInt 2,
         ''keycloak_state'' := None, ''keycloak_code_verifier'' := None),
      flashed = [(Msg_keycloak_ok, ''success'')],
      trace = [EvHttp (token_request cfg_demo ''c0de'' (JStr ''V1'')),
               EvHttp (userinfo_request cfg_demo (JStr ''T1'')),
               EvHttp (cloud_token_request cfg_demo),
               EvHttp (GetBearer ''https://compute.api.cloud.ru/api/v1/vms?project_id=49abf5c8-9f16-4ca3-b5d3-5eca9bfac631''
                         (JStr ''CT'')),
               EvHttp (cloud_token_request cfg_demo),
               EvHttp (GetBearer ''https://compute.api.cloud.ru/api/v1/vms?project_id=49abf5c8-9f16-4ca3-b5d3-5eca9bfac631''
                         (JStr ''CT''))]\<rparr>"
  by (simp add: callback_checked [OF passes_checks_demo]
        exchange_success [OF exchange_succeeds_world_C]
        fetch_user_info_200 [OF userinfo_world_C] finalize_def dict_get_def
        get_all_vms_world_C clean_up_def returned_def except_RequestException_def)

theorem C3_finalized_flow_is_consumed_witness:
  "finalized (keycloak_oauth_callback cfg_demo world_C sess_pending args_ok) \<and>
   (arg_error args_ok = None \<or> arg_error args_ok = Some []) \<and>
   sess (keycloak_oauth_callback cfg_demo world_C sess_pending args_ok) ''keycloak_state'' = None \<and>
   sess (keycloak_oauth_callback cfg_demo world_C sess_pending args_ok)
     ''keycloak_code_verifier'' = None \<and>
   keycloak_oauth_callback cfg_demo world_C
       (sess (keycloak_oauth_callback cfg_demo world_C sess_pending args_ok)) args_ok =
     \<lparr>resp = Redirect_web,
      sess = sess (keycloak_oauth_callback cfg_demo world_C sess_pending args_ok),
      flashed = [(Msg_bad_state, ''error'')], trace = []\<rparr> \<and>
   \<not> finalized
       (keycloak_oauth_callback cfg_demo world_C
          (sess (keycloak_oauth_callback cfg_demo world_C sess_pending args_ok)) args_ok)"
proof -
  have f: "finalized (keycloak_oauth_callback cfg_demo world_C sess_pending args_ok)"
    by (simp add: scenario_C finalized_def)
  have e: "arg_error args_ok = None \<or> arg_error args_ok = Some []"
    by (simp add: args_ok_def)
  show ?thesis
    by (intro conjI f e
          C3_finalized_flow_is_consumed [where a'' = args_ok and cfg' = cfg_demo
            and w' = world_C, OF f e, THEN conjunct1]
          C3_finalized_flow_is_consumed [where a'' = args_ok and cfg' = cfg_demo
            and w' = world_C, OF f e, THEN conjunct2, THEN conjunct1]
          C3_finalized_flow_is_consumed [where a'' = args_ok and cfg' = cfg_demo
            and w' = world_C, OF f e, THEN conjunct2, THEN conjunct2, THEN conjunct1]
          C3_finalized_flow_is_consumed [where a'' = args_ok and cfg' = cfg_demo
            and w' = world_C, OF f e, THEN conjunct2, THEN conjunct2, THEN conjunct2])
qed

lemma scenario_D:
  "keycloak_oauth_callback cfg_demo world_denied sess_pending args_ok =
     \<lparr>resp = Redirect_web, sess = sess_pending,
      flashed = [(Msg_token_exchange (JStr ''invalid_grant''), ''error'')],
      trace = [EvHttp (token_request cfg_demo ''c0de'' (JStr ''V1''))]\<rparr>"
proof -
  have h2: "http world_denied [] (token_request cfg_demo ''c0de'' (JStr ''V1'')) =
     Response 400 (Some (JObj [(''error'', JStr ''invalid_grant'')]))"
    by (simp add: world_denied_def world_with_def token_request_demo)
  have h3: "''error'' \<in> set (map fst [(''error'', JStr ''invalid_grant'')])" by simp
  from exchange_error_payload [OF h2 h3] show ?thesis
    by (simp add: callback_checked [OF passes_checks_demo] dict_get_def returned_def
          except_RequestException_def)
qed

text \<open>
  C3 as stated fails for a callback that ends in a failure: after the exchange was
  refused with \<open>invalid_grant\<close>, the stored state and verifier are still in the
  session, and a second callback with the same code and state passes the state check
  and finalizes once the provider accepts the code.
\<close>

theorem C3_failed_flow_replays_counterexample:
  "resp (keycloak_oauth_callback cfg_demo world_denied sess_pending args_ok) = Redirect_web \<and>
   flashed (keycloak_oauth_callback cfg_demo world_denied sess_pending args_ok) =
     [(Msg_token_exchange (JStr ''invalid_grant''), ''error'')] \<and>
   sess (keycloak_oauth_callback cfg_demo world_denied sess_pending args_ok) ''keycloak_state'' =
     Some (JStr ''S1'') \<and>
   sess (keycloak_oauth_callback cfg_demo world_denied sess_pending args_ok)
     ''keycloak_code_verifier'' = Some (JStr ''V1'') \<and>
   finalized
     (keycloak_oauth_callback cfg_demo world_C
        (sess (keycloak_oauth_callback cfg_demo world_denied sess_pending args_ok)) args_ok) \<and>
   sess (keycloak_oauth_callback cfg_demo world_C
           (sess (keycloak_oauth_callback cfg_demo world_denied sess_pending args_ok)) args_ok)
     ''is_authed'' = Some (JBool True)"
  by (simp add: scenario_D scenario_C finalized_def) (simp add: sess_pending_def)

lemma get_all_vms_ignores_project:
  "get_all_vms_in_cloud cfg w h p = get_all_vms_in_cloud cfg w h q"
  unfolding get_all_vms_in_cloud_def vms_url_def by (rule refl)

text \<open>
  C4, at a run the code gets wrong. The inventory holds 7 machines for project \<open>P1\<close>
  and 2 for any other project. Asked for project \<open>P1\<close>, the resource counter requests
  the fixed project \<open>49abf5c8-9f16-4ca3-b5d3-5eca9bfac631\<close> of line 267 and returns 2;
  scenario C ends with project \<open>P1\<close> and a count of 2, not 7.
\<close>

theorem C4_inventory_ignores_project:
  "demo_http (GetBearer ''https://compute.api.cloud.ru/api/v1/vms?project_id=P1'' (JStr ''CT'')) =
     Response 200 (Some (JObj [(''total'', JInt 7)])) \<and>
   get_all_vms_in_cloud cfg_demo world_C [] (JStr ''P1'') =
     (Inr (JInt 2),
      [EvHttp (cloud_token_request cfg_demo),
       EvHttp (GetBearer ''https://compute.api.cloud.ru/api/v1/vms?project_id=49abf5c8-9f16-4ca3-b5d3-5eca9bfac631''
                 (JStr ''CT''))]) \<and>
   sess (keycloak_oauth_callback cfg_demo world_C sess_pending args_ok)
     ''user_cloud_project_id'' = Some (JStr ''P1'') \<and>
   sess (keycloak_oauth_callback cfg_demo world_C sess_pending args_ok) ''all_vms'' =
     Some (JInt 2)"
  by (simp add: scenario_C get_all_vms_world_C demo_http_def)

section \<open>A successful initiation\<close>

lemma b64_sym_in: "b64_sym n \<in> set b64_alphabet"
proof -
  have "n mod 64 < length b64_alphabet" by (simp add: b64_alphabet_def)
  then show ?thesis unfolding b64_sym_def by (rule nth_mem)
qed

lemma b64_alphabet_ascii: "list_all is_ascii b64_alphabet"
  by (simp add: b64_alphabet_def is_ascii_def)

lemma b64_sym_ascii [simp]: "is_ascii (b64_sym n)"
  using b64_alphabet_ascii b64_sym_in [of n] by (simp add: list_all_iff)

lemma b64_groups_ascii: "list_all is_ascii (b64_groups ns)"
proof (induction ns rule: b64_groups.induct)
  case 1
  show ?case by simp
next
  case (2 a)
  show ?case by (simp add: is_ascii_def [of "CHR ''=''"])
next
  case (3 a b)
  show ?case by (simp add: is_ascii_def [of "CHR ''=''"])
next
  case (4 a b c bs)
  then show ?case by simp
qed

lemma rstrip_eq_subset: "set (rstrip_eq s) \<subseteq> set s"
proof -
  have "set (dropWhile (\<lambda>c. c = CHR ''='') (rev s)) \<subseteq> set (rev s)"
    by (rule subsetI) (rule set_dropWhileD)
  then show ?thesis by (simp add: rstrip_eq_def)
qed

lemma rstrip_eq_ascii:
  assumes "list_all is_ascii s"
  shows "list_all is_ascii (rstrip_eq s)"
proof -
  from assms have "\<forall>c\<in>set s. is_ascii c" by (simp add: list_all_iff)
  with rstrip_eq_subset [of s] have "\<forall>c\<in>set (rstrip_eq s). is_ascii c" by blast
  then show ?thesis by (simp add: list_all_iff)
qed

lemma urlsafe_text_ascii: "list_all is_ascii (rstrip_eq (urlsafe_b64encode bs))"
  unfolding urlsafe_b64encode_def by (rule rstrip_eq_ascii) (rule b64_groups_ascii)

lemma token_urlsafe_ascii: "list_all is_ascii (fst (token_urlsafe w h n))"
  unfolding token_urlsafe_def fst_conv by (rule urlsafe_text_ascii)

lemma generate_code_challenge_total:
  "generate_code_challenge w (fst (token_urlsafe w h n)) =
     Inr (rstrip_eq (urlsafe_b64encode (sha256 w (fst (token_urlsafe w h n)))))"
  by (simp add: generate_code_challenge_def token_urlsafe_ascii)

lemma init_success:
  assumes "init_ready cfg w"
  shows "keycloak_oauth_init cfg w s =
     \<lparr>resp = Jsonify
        (JObj [(''success'', JBool True),
               (''auth_url'',
                JStr (keycloak_auth_url cfg @ ''?''
                      @ urlencode
                          (auth_params cfg
                             (fst (token_urlsafe w [EvSystem ping_command, EvTokenBytes 32] 32))
                             (rstrip_eq (urlsafe_b64encode
                                (sha256 w (fst (token_urlsafe w [EvSystem ping_command] 32)))))))),
               (''state'',
                JStr (fst (token_urlsafe w [EvSystem ping_command, EvTokenBytes 32] 32)))]) 200,
      sess = s(''keycloak_state'' \<mapsto>
                 JStr (fst (token_urlsafe w [EvSystem ping_command, EvTokenBytes 32] 32)),
               ''keycloak_code_verifier'' \<mapsto>
                 JStr (fst (token_urlsafe w [EvSystem ping_command] 32))),
      flashed = [],
      trace = [EvSystem ping_command, EvTokenBytes 32, EvTokenBytes 32]\<rparr>"
proof -
  have v: "generate_code_verifier w [EvSystem ping_command] =
      (fst (token_urlsafe w [EvSystem ping_command] 32), [EvSystem ping_command, EvTokenBytes 32])"
    by (simp add: generate_code_verifier_def token_urlsafe_def)
  from assms show ?thesis
    unfolding keycloak_oauth_init_def init_ready_def
    by (simp add: v generate_code_challenge_total case_prod_beta)
       (simp add: token_urlsafe_def)
qed

text \<open>
  C10. When the initiation succeeds, the JSON body it returns holds, next to the
  authorization URL, a \<open>state\<close> field, and its value is the very state token that was
  stored for the callback under \<open>keycloak_state\<close>.
\<close>

theorem C10_state_in_response_body:
  assumes "init_ready cfg w"
  shows "\<exists>auth_url state.
           resp (keycloak_oauth_init cfg w s) =
             Jsonify (JObj [(''success'', JBool True), (''auth_url'', JStr auth_url),
                            (''state'', JStr state)]) 200 \<and>
           sess (keycloak_oauth_init cfg w s) ''keycloak_state'' = Some (JStr state)"
proof -
  have "resp (keycloak_oauth_init cfg w s) =
          Jsonify (JObj [(''success'', JBool True),
                         (''auth_url'',
                          JStr (keycloak_auth_url cfg @ ''?''
                            @ urlencode
                                (auth_params cfg
                                   (fst (token_urlsafe w [EvSystem ping_command, EvTokenBytes 32] 32))
                                   (rstrip_eq (urlsafe_b64encode
                                      (sha256 w (fst (token_urlsafe w [EvSystem ping_command] 32)))))))),
                         (''state'',
                          JStr (fst (token_urlsafe w [EvSystem ping_command, EvTokenBytes 32] 32)))])
            200 \<and>
        sess (keycloak_oauth_init cfg w s) ''keycloak_state'' =
          Some (JStr (fst (token_urlsafe w [EvSystem ping_command, EvTokenBytes 32] 32)))"
    by (simp add: init_success [OF assms])
  then show ?thesis by blast
qed

lemma init_ready_demo: "init_ready cfg_demo world_C"
  by (simp add: init_ready_def cfg_demo_def world_C_def world_with_def)

theorem C10_state_in_response_body_witness:
  "init_ready cfg_demo world_C \<and>
   (\<exists>auth_url state.
      resp (keycloak_oauth_init cfg_demo world_C Map.empty) =
        Jsonify (JObj [(''success'', JBool True), (''auth_url'', JStr auth_url),
                       (''state'', JStr state)]) 200 \<and>
      sess (keycloak_oauth_init cfg_demo world_C Map.empty) ''keycloak_state'' =
        Some (JStr state))"
  by (rule conjI [OF init_ready_demo C10_state_in_response_body [OF init_ready_demo]])

section \<open>The authorization request\<close>

















end
